theory Spec2Isabelle
  imports Main
begin

section \<open>The ASGI-to-WSGI wrapper of \<^verbatim>\<open>asgi_to_wsgi.py\<close>\<close>

text \<open>
  The wrapper turns one WSGI call \<^verbatim>\<open>(environ, response)\<close> into one run of an ASGI
  application: it builds the ASGI scope from the environ, queues the request event,
  runs the application with the instance's \<^verbatim>\<open>receive\<close> and \<^verbatim>\<open>send\<close>, and returns
  the buffered body.  The embedding keeps the instance fields in a record that is passed
  along, exceptions as values, and the application as a tree of the \<^verbatim>\<open>receive\<close> and
  \<^verbatim>\<open>send\<close> calls it makes.
\<close>

subsection \<open>Python values\<close>

text \<open>
  \<^verbatim>\<open>bytes\<close> is a list of \<^typ>\<open>char\<close> (a HOL character is one byte).  A \<^verbatim>\<open>str\<close> of the
  environ is a \<^typ>\<open>string\<close> whose characters are code points below 256: WSGI hands over
  native strings that hold ISO-8859-1 code points only (PEP 3333).  Text decoded from
  UTF-8 can hold any code point and is a list of code points.
\<close>

type_synonym bytes = "char list"
type_synonym ustr = "nat list"

datatype HttpState = REQUEST | RESPONSE | COMPLETE

datatype error =
    ValueError string
  | KeyError string
  | TypeError string
  | AttributeError
  | UnicodeDecodeError
  | ApplicationError string

text \<open>Sequencing of steps that may raise: the first exception ends the function.\<close>

definition bind :: "error + 'a \<Rightarrow> ('a \<Rightarrow> error + 'b) \<Rightarrow> error + 'b" where
  "bind r f = (case r of Inl e \<Rightarrow> Inl e | Inr x \<Rightarrow> f x)"

text \<open>\<^verbatim>\<open>s.startswith(p)\<close>\<close>

definition startswith :: "string \<Rightarrow> string \<Rightarrow> bool" where
  "startswith s p = (take (length p) s = p)"

text \<open>\<^verbatim>\<open>s.lower()\<close> on code points below 256: the ASCII capitals and the Latin-1
  capitals (U+00C0 to U+00DE without the multiplication sign U+00D7) move up by 32.\<close>

definition lower_char :: "char \<Rightarrow> char" where
  "lower_char c =
     (let n = (of_char c :: nat)
      in if (65 \<le> n \<and> n \<le> 90) \<or> (192 \<le> n \<and> n \<le> 222 \<and> n \<noteq> 215)
         then char_of (n + 32) else c)"

definition lower :: "string \<Rightarrow> string" where
  "lower s = map lower_char s"

text \<open>\<^verbatim>\<open>s.replace("_", "-")\<close>\<close>

definition replace_underscore :: "string \<Rightarrow> string" where
  "replace_underscore s = map (\<lambda>c. if c = CHR ''_'' then CHR ''-'' else c) s"

text \<open>\<^verbatim>\<open>s.encode('utf-8')\<close> on code points below 256: one byte below 128, two bytes
  from 128 on.\<close>

definition encode_char :: "char \<Rightarrow> bytes" where
  "encode_char c =
     (let n = (of_char c :: nat)
      in if n < 128 then [c] else [char_of (192 + n div 64), char_of (128 + n mod 64)])"

definition encode_utf8 :: "string \<Rightarrow> bytes" where
  "encode_utf8 s = concat (map encode_char s)"

text \<open>\<^verbatim>\<open>b.decode('utf-8')\<close>, the strict decoder: shortest forms only, no surrogates,
  nothing above U+10FFFF; anything else raises \<^verbatim>\<open>UnicodeDecodeError\<close>.  The byte
  after a lead byte E0 starts at A0 and after ED ends before A0; after F0 it starts at
  90 and after F4 ends before 90; every other byte that follows is a continuation byte
  (80 to BF).\<close>

definition cont :: "nat \<Rightarrow> bool" where
  "cont b = (128 \<le> b \<and> b < 192)"

fun decode_points :: "nat list \<Rightarrow> ustr option" where
  "decode_points [] = Some []"
| "decode_points (b # bs) =
     (if b < 128 then map_option ((#) b) (decode_points bs)
      else (case bs of
        [] \<Rightarrow> None
      | c1 # bs1 \<Rightarrow>
          (if 194 \<le> b \<and> b < 224 then
            (if cont c1
             then map_option ((#) ((b - 192) * 64 + (c1 - 128))) (decode_points bs1)
             else None)
          else (case bs1 of
            [] \<Rightarrow> None
          | c2 # bs2 \<Rightarrow>
              (if 224 \<le> b \<and> b < 240 then
                (if (if b = 224 then 160 else 128) \<le> c1 \<and> c1 < (if b = 237 then 160 else 192) \<and> cont c2
                 then map_option ((#) ((b - 224) * 4096 + (c1 - 128) * 64 + (c2 - 128)))
                        (decode_points bs2)
                 else None)
              else (case bs2 of
                [] \<Rightarrow> None
              | c3 # bs3 \<Rightarrow>
                  (if 240 \<le> b \<and> b < 245
                      \<and> (if b = 240 then 144 else 128) \<le> c1
                      \<and> c1 < (if b = 244 then 144 else 192) \<and> cont c2 \<and> cont c3
                   then map_option
                          ((#) ((b - 240) * 262144 + (c1 - 128) * 4096 + (c2 - 128) * 64
                                + (c3 - 128)))
                          (decode_points bs3)
                   else None)))))))"

definition decode_utf8 :: "bytes \<Rightarrow> error + ustr" where
  "decode_utf8 b =
     (case decode_points (map of_char b) of
        None \<Rightarrow> Inl UnicodeDecodeError
      | Some t \<Rightarrow> Inr t)"

text \<open>\<^verbatim>\<open>str(n)\<close> of an integer: decimal digits, a minus sign for a negative number.\<close>

fun str_nat :: "nat \<Rightarrow> string" where
  "str_nat n =
     (if n < 10 then [''0123456789'' ! n]
      else str_nat (n div 10) @ [''0123456789'' ! (n mod 10)])"

declare str_nat.simps [simp del]

definition str_int :: "int \<Rightarrow> string" where
  "str_int i = (if i < 0 then CHR ''-'' # str_nat (nat (- i)) else str_nat (nat i))"

text \<open>\<^verbatim>\<open>str(state)\<close> of an \<^verbatim>\<open>HttpState\<close> member.\<close>

fun str_state :: "HttpState \<Rightarrow> string" where
  "str_state REQUEST = ''HttpState.REQUEST''"
| "str_state RESPONSE = ''HttpState.RESPONSE''"
| "str_state COMPLETE = ''HttpState.COMPLETE''"

subsection \<open>The environ and the scope\<close>

text \<open>
  A value of the environ is a string, a readable stream (given by the bytes
  \<^verbatim>\<open>read()\<close> returns, all that is left in it) or \<^verbatim>\<open>None\<close>.  The environ is the list
  of its items in iteration order; a key is looked up with \<^const>\<open>map_of\<close>.
\<close>

datatype env_value = EStr string | EStream bytes | ENone

type_synonym environ = "(string \<times> env_value) list"

text \<open>What \<^verbatim>\<open>build_scope_and_body\<close> returns as the body: the bytes read from the
  stream, or the \<^verbatim>\<open>str\<close> literal \<^verbatim>\<open>''\<close> when \<^verbatim>\<open>wsgi.input\<close> is \<^verbatim>\<open>None\<close>.\<close>

datatype body_value = BytesBody bytes | StrBody string

record scope =
  sc_type :: string
  sc_method :: env_value
  sc_root_path :: env_value
  sc_path :: env_value
  sc_query_string :: env_value
  sc_http_version :: string
  sc_scheme :: env_value
  sc_server :: "env_value \<times> env_value"
  sc_client :: env_value
  sc_headers :: "(bytes \<times> bytes) list"

text \<open>\<^verbatim>\<open>environ[key]\<close>\<close>

definition getitem :: "environ \<Rightarrow> string \<Rightarrow> error + env_value" where
  "getitem environ key =
     (case map_of environ key of None \<Rightarrow> Inl (KeyError key) | Some v \<Rightarrow> Inr v)"

text \<open>The branches of the header loop that choose \<^verbatim>\<open>corrected_name\<close>; \<open>None\<close> is
  the \<^verbatim>\<open>continue\<close>.\<close>

definition corrected_name :: "string \<Rightarrow> string option" where
  "corrected_name name =
     (if startswith name ''HTTP_'' then Some (replace_underscore (lower (drop 5 name)))
      else if name = ''CONTENT_LENGTH'' then Some ''content-length''
      else if name = ''CONTENT_TYPE'' then Some ''content-type''
      else None)"

text \<open>The \<^verbatim>\<open>for name, value in environ.items()\<close> loop; \<open>headers\<close> is the list built
  so far.  \<^verbatim>\<open>value.encode\<close> exists on a \<^verbatim>\<open>str\<close> only.\<close>

fun header_loop :: "environ \<Rightarrow> (bytes \<times> bytes) list \<Rightarrow> error + (bytes \<times> bytes) list" where
  "header_loop [] headers = Inr headers"
| "header_loop ((name, value) # items) headers =
     (case corrected_name name of
        None \<Rightarrow> header_loop items headers
      | Some cn \<Rightarrow>
          (case value of
             EStr v \<Rightarrow> header_loop items (headers @ [(encode_utf8 cn, encode_utf8 v)])
           | _ \<Rightarrow> Inl AttributeError))"

text \<open>\<^verbatim>\<open>environ["SERVER_PROTOCOL"][5:]\<close>: only a \<^verbatim>\<open>str\<close> can be sliced.  The text of
  the \<^verbatim>\<open>TypeError\<close> starts with the name of the value's class in quotes: \<^verbatim>\<open>NoneType\<close>
  for \<^verbatim>\<open>None\<close>, and for a stream the class of the stream, which the environ value does
  not record (\<^verbatim>\<open>_io.BytesIO\<close> is taken).\<close>

definition not_subscriptable :: "string \<Rightarrow> error" where
  "not_subscriptable cls =
     TypeError ([CHR 0x27] @ cls @ [CHR 0x27] @ '' object is not subscriptable'')"

definition slice5 :: "env_value \<Rightarrow> error + string" where
  "slice5 v =
     (case v of
        EStr p \<Rightarrow> Inr (drop 5 p)
      | EStream _ \<Rightarrow> Inl (not_subscriptable ''_io.BytesIO'')
      | ENone \<Rightarrow> Inl (not_subscriptable ''NoneType''))"

text \<open>\<^verbatim>\<open>wsgi_input.read() if wsgi_input is not None else ''\<close>\<close>

definition read_body :: "env_value \<Rightarrow> error + body_value" where
  "read_body wsgi_input =
     (case wsgi_input of
        ENone \<Rightarrow> Inr (StrBody [])
      | EStream content \<Rightarrow> Inr (BytesBody content)
      | EStr _ \<Rightarrow> Inl AttributeError)"

definition build_scope_and_body :: "environ \<Rightarrow> error + (scope \<times> body_value)" where
  "build_scope_and_body environ =
     bind (header_loop environ []) (\<lambda>headers.
     bind (getitem environ ''REQUEST_METHOD'') (\<lambda>method.
     bind (getitem environ ''SCRIPT_NAME'') (\<lambda>root_path.
     bind (getitem environ ''PATH_INFO'') (\<lambda>path.
     bind (getitem environ ''QUERY_STRING'') (\<lambda>query_string.
     bind (getitem environ ''SERVER_PROTOCOL'') (\<lambda>protocol.
     bind (slice5 protocol) (\<lambda>http_version.
     bind (getitem environ ''SERVER_NAME'') (\<lambda>server_name.
     bind (getitem environ ''SERVER_PORT'') (\<lambda>server_port.
     bind (getitem environ ''REMOTE_ADDR'') (\<lambda>remote_addr.
     bind (getitem environ ''wsgi.input'') (\<lambda>wsgi_input.
     bind (read_body wsgi_input) (\<lambda>b.
     Inr (\<lparr> sc_type = ''http'',
            sc_method = method,
            sc_root_path = root_path,
            sc_path = path,
            sc_query_string = query_string,
            sc_http_version = http_version,
            sc_scheme = (case map_of environ ''wsgi.url_scheme'' of
                           None \<Rightarrow> EStr ''http'' | Some v \<Rightarrow> v),
            sc_server = (server_name, server_port),
            sc_client = remote_addr,
            sc_headers = headers \<rparr>, b)))))))))))))"

subsection \<open>Messages, the instance and the application\<close>

text \<open>What the wrapper puts on \<^verbatim>\<open>app_queue\<close>: the two dictionary literals of the
  source.\<close>

datatype event = HttpRequest body_value bool | HttpDisconnect

text \<open>A message the application passes to \<^verbatim>\<open>send\<close>: a dictionary read at the keys
  \<^verbatim>\<open>type\<close>, \<^verbatim>\<open>status\<close>, \<^verbatim>\<open>headers\<close>, \<^verbatim>\<open>body\<close> and \<^verbatim>\<open>more_body\<close>; \<open>None\<close> is
  a key that is absent.\<close>

record message =
  m_type :: "string option"
  m_status :: "int option"
  m_headers :: "(bytes \<times> bytes) list option"
  m_body :: "bytes option"
  m_more_body :: "bool option"

text \<open>One call \<^verbatim>\<open>self.response(status, corrected_headers, None)\<close>.\<close>

type_synonym response_call = "string \<times> (ustr \<times> ustr) list \<times> unit option"

text \<open>
  The fields of \<^verbatim>\<open>AsgiToWsgiInstance\<close> that change during a request, and three logs of
  what passes to the outside: the calls of the \<^verbatim>\<open>response\<close> callback, the scopes the
  application was invoked with, and the events \<^verbatim>\<open>receive\<close> handed to it.
\<close>

record inst =
  state :: HttpState
  app_queue :: "event list"
  body :: bytes
  response_calls :: "response_call list"
  app_calls :: "scope list"
  received :: "event list"

text \<open>\<^verbatim>\<open>__init__\<close>: an empty body buffer.  \<^verbatim>\<open>state\<close> and \<^verbatim>\<open>app_queue\<close> do not exist
  before \<^verbatim>\<open>run_asgi_app\<close> sets them; the values here are never read.\<close>

definition new_instance :: inst where
  "new_instance =
     \<lparr> state = REQUEST, app_queue = [], body = [], response_calls = [], app_calls = [],
       received = [] \<rparr>"

text \<open>The loop that fills \<^verbatim>\<open>corrected_headers\<close>.\<close>

fun decode_headers :: "(bytes \<times> bytes) list \<Rightarrow> (ustr \<times> ustr) list \<Rightarrow> error + (ustr \<times> ustr) list" where
  "decode_headers [] acc = Inr acc"
| "decode_headers ((k, v) # hs) acc =
     bind (decode_utf8 k) (\<lambda>k'.
     bind (decode_utf8 v) (\<lambda>v'.
     decode_headers hs (acc @ [(k', v')])))"

definition unexpected :: "HttpState \<Rightarrow> string \<Rightarrow> string" where
  "unexpected st message_type =
     str_state st @ '': Unexpected '' @ [CHR 0x27] @ message_type @ [CHR 0x27]
       @ '' event received.''"

text \<open>\<^verbatim>\<open>send\<close>: the result is the exception raised, if any, and the instance as the
  call leaves it.\<close>

definition send :: "inst \<Rightarrow> message \<Rightarrow> (error + unit) \<times> inst" where
  "send s message =
     (case m_type message of
        None \<Rightarrow> (Inl (KeyError ''type''), s)
      | Some message_type \<Rightarrow>
          if state s = REQUEST \<and> message_type = ''http.response.start'' then
            (case m_status message of
               None \<Rightarrow> (Inl (KeyError ''status''), s)
             | Some st \<Rightarrow>
                 (case decode_headers
                         (case m_headers message of None \<Rightarrow> [] | Some hs \<Rightarrow> hs) [] of
                    Inl e \<Rightarrow> (Inl e, s)
                  | Inr corrected_headers \<Rightarrow>
                      (Inr (),
                       s\<lparr> response_calls :=
                            response_calls s @ [(str_int st, corrected_headers, None)],
                          state := RESPONSE \<rparr>)))
          else if state s = RESPONSE \<and> message_type = ''http.response.body'' then
            (let s1 = s\<lparr> body := body s @ (case m_body message of None \<Rightarrow> [] | Some b \<Rightarrow> b) \<rparr>
             in if \<not> (case m_more_body message of None \<Rightarrow> False | Some mb \<Rightarrow> mb)
                then (Inr (), s1\<lparr> state := COMPLETE,
                                  app_queue := app_queue s1 @ [HttpDisconnect] \<rparr>)
                else (Inr (), s1))
          else (Inl (TypeError (unexpected (state s) message_type)), s))"

text \<open>\<^verbatim>\<open>receive\<close>: the head of the queue; \<open>None\<close> when the queue is empty and the
  \<^verbatim>\<open>await\<close> never resumes (nothing else runs on the loop that could fill it).\<close>

definition receive :: "inst \<Rightarrow> (event \<times> inst) option" where
  "receive s =
     (case app_queue s of
        [] \<Rightarrow> None
      | e # q \<Rightarrow> Some (e, s\<lparr> app_queue := q, received := received s @ [e] \<rparr>))"

text \<open>
  The application, as the calls it makes: it returns, raises, awaits \<^verbatim>\<open>receive()\<close> and
  goes on with the event, or awaits \<^verbatim>\<open>send(message)\<close> and goes on with the outcome (it
  may catch the exception).
\<close>

datatype app =
    Return
  | Raise error
  | Receive "event \<Rightarrow> app"
  | Send message "error + unit \<Rightarrow> app"

datatype 'a outcome = Returned 'a | Raised error | Hangs

primrec run :: "app \<Rightarrow> inst \<Rightarrow> unit outcome \<times> inst" where
  "run Return s = (Returned (), s)"
| "run (Raise e) s = (Raised e, s)"
| "run (Receive k) s =
     (case receive s of None \<Rightarrow> (Hangs, s) | Some (e, s') \<Rightarrow> run (k e) s')"
| "run (Send message k) s = (case send s message of (r, s') \<Rightarrow> run (k r) s')"

definition run_asgi_app :: "(scope \<Rightarrow> app) \<Rightarrow> inst \<Rightarrow> scope \<Rightarrow> body_value \<Rightarrow> unit outcome \<times> inst" where
  "run_asgi_app asgi_application s scope b =
     run (asgi_application scope)
       (s\<lparr> state := REQUEST,
           app_queue := [HttpRequest b False],
           app_calls := app_calls s @ [scope] \<rparr>)"

text \<open>\<^verbatim>\<open>AsgiToWsgiInstance.__call__\<close>\<close>

definition instance_call :: "(scope \<Rightarrow> app) \<Rightarrow> inst \<Rightarrow> environ \<Rightarrow> bytes list outcome \<times> inst" where
  "instance_call asgi_application s environ =
     (case getitem environ ''SERVER_PROTOCOL'' of
        Inl e \<Rightarrow> (Raised e, s)
      | Inr (EStream _) \<Rightarrow> (Raised AttributeError, s)
      | Inr ENone \<Rightarrow> (Raised AttributeError, s)
      | Inr (EStr p) \<Rightarrow>
          if \<not> startswith p ''HTTP''
          then (Raised (ValueError ''ASGI wrapper received a non-HTTP environ''), s)
          else (case build_scope_and_body environ of
                  Inl e \<Rightarrow> (Raised e, s)
                | Inr (scope, b) \<Rightarrow>
                    (case run_asgi_app asgi_application s scope b of
                       (Returned _, s') \<Rightarrow> (Returned [body s'], s')
                     | (Raised e, s') \<Rightarrow> (Raised e, s')
                     | (Hangs, s') \<Rightarrow> (Hangs, s'))))"

text \<open>\<^verbatim>\<open>AsgiToWsgi.__call__\<close>: a new instance for every call.\<close>

definition asgi_to_wsgi :: "(scope \<Rightarrow> app) \<Rightarrow> environ \<Rightarrow> bytes list outcome \<times> inst" where
  "asgi_to_wsgi asgi_application environ = instance_call asgi_application new_instance environ"

subsection \<open>Messages and orderings used in the properties\<close>

text \<open>The two response messages of the protocol with every field given.\<close>

definition response_start :: "int \<Rightarrow> (bytes \<times> bytes) list \<Rightarrow> message" where
  "response_start st hs =
     \<lparr> m_type = Some ''http.response.start'', m_status = Some st, m_headers = Some hs,
       m_body = None, m_more_body = None \<rparr>"

definition response_body :: "bytes \<Rightarrow> bool \<Rightarrow> message" where
  "response_body b more_body =
     \<lparr> m_type = Some ''http.response.body'', m_status = None, m_headers = None,
       m_body = Some b, m_more_body = Some more_body \<rparr>"

text \<open>The bytes a body message carries: \<^verbatim>\<open>message.get("body", b"")\<close>.\<close>

definition payload :: "message \<Rightarrow> bytes" where
  "payload m = (case m_body m of None \<Rightarrow> [] | Some b \<Rightarrow> b)"

text \<open>The position of a state on the path from \<open>REQUEST\<close> to \<open>COMPLETE\<close>.\<close>

fun rank :: "HttpState \<Rightarrow> nat" where
  "rank REQUEST = 0"
| "rank RESPONSE = 1"
| "rank COMPLETE = 2"

text \<open>An application that awaits \<^verbatim>\<open>send\<close> for each message of a list in turn, lets an
  exception of \<^verbatim>\<open>send\<close> escape, and returns after the last message.\<close>

primrec send_each :: "message list \<Rightarrow> app" where
  "send_each [] = Return"
| "send_each (m # ms) =
     Send m (\<lambda>r. case r of Inl e \<Rightarrow> Raise e | Inr _ \<Rightarrow> send_each ms)"

text \<open>
  The header rule in the words of the specification: a key prefixed \<open>HTTP_\<close> gives the
  header named by the rest of the key, lowercased, with hyphens for underscores; the keys
  \<open>CONTENT_LENGTH\<close> and \<open>CONTENT_TYPE\<close> give \<open>content-length\<close> and \<open>content-type\<close>;
  name and value are UTF-8 encoded; any other key gives no header.
\<close>

definition spec_header :: "string \<times> env_value \<Rightarrow> (bytes \<times> bytes) list" where
  "spec_header item =
     (case item of
        (key, EStr v) \<Rightarrow>
          if startswith key ''HTTP_''
          then [(encode_utf8 (replace_underscore (lower (drop 5 key))), encode_utf8 v)]
          else if key = ''CONTENT_LENGTH'' then [(encode_utf8 ''content-length'', encode_utf8 v)]
          else if key = ''CONTENT_TYPE'' then [(encode_utf8 ''content-type'', encode_utf8 v)]
          else []
      | _ \<Rightarrow> [])"

definition spec_headers :: "environ \<Rightarrow> (bytes \<times> bytes) list" where
  "spec_headers environ = concat (map spec_header environ)"

text \<open>Every key that gives a header holds a string, as WSGI requires of the CGI
  variables.\<close>

definition header_values_str :: "environ \<Rightarrow> bool" where
  "header_values_str environ =
     list_all (\<lambda>(name, value). case corrected_name name of
                                   None \<Rightarrow> True
                                 | Some _ \<Rightarrow> (case value of EStr _ \<Rightarrow> True | _ \<Rightarrow> False))
       environ"

text \<open>The keys \<^verbatim>\<open>build_scope_and_body\<close> reads with \<^verbatim>\<open>environ[...]\<close>, besides
  \<^verbatim>\<open>SERVER_PROTOCOL\<close> and \<^verbatim>\<open>wsgi.input\<close>.\<close>

definition required_keys :: "string list" where
  "required_keys =
     [''REQUEST_METHOD'', ''SCRIPT_NAME'', ''PATH_INFO'', ''QUERY_STRING'', ''SERVER_NAME'',
      ''SERVER_PORT'', ''REMOTE_ADDR'']"

text \<open>Environs of requests: one with header keys and an input stream, one without the
  \<^verbatim>\<open>wsgi.input\<close> key, and a minimal one whose \<^verbatim>\<open>wsgi.input\<close> is \<^verbatim>\<open>None\<close>.\<close>

definition header_environ :: environ where
  "header_environ =
     [(''REQUEST_METHOD'', EStr ''POST''), (''SCRIPT_NAME'', EStr []),
      (''PATH_INFO'', EStr ''/''), (''QUERY_STRING'', EStr []),
      (''SERVER_PROTOCOL'', EStr ''HTTP/1.1''), (''SERVER_NAME'', EStr ''localhost''),
      (''SERVER_PORT'', EStr ''80''), (''REMOTE_ADDR'', EStr ''127.0.0.1''),
      (''HTTP_X_FOO'', EStr ''Bar''), (''CONTENT_TYPE'', EStr ''text/plain''),
      (''wsgi.url_scheme'', EStr ''https''), (''CONTENT_LENGTH'', EStr ''5''),
      (''wsgi.input'', EStream ''hello'')]"

definition header_scope :: scope where
  "header_scope =
     \<lparr> sc_type = ''http'', sc_method = EStr ''POST'', sc_root_path = EStr [],
       sc_path = EStr ''/'', sc_query_string = EStr [], sc_http_version = ''1.1'',
       sc_scheme = EStr ''https'', sc_server = (EStr ''localhost'', EStr ''80''),
       sc_client = EStr ''127.0.0.1'',
       sc_headers = [(''x-foo'', ''Bar''), (''content-type'', ''text/plain''),
                     (''content-length'', ''5'')] \<rparr>"

definition no_input_environ :: environ where
  "no_input_environ =
     [(''REQUEST_METHOD'', EStr ''GET''), (''SCRIPT_NAME'', EStr []),
      (''PATH_INFO'', EStr ''/''), (''QUERY_STRING'', EStr []),
      (''SERVER_PROTOCOL'', EStr ''HTTP/1.1''), (''SERVER_NAME'', EStr ''localhost''),
      (''SERVER_PORT'', EStr ''80''), (''REMOTE_ADDR'', EStr ''127.0.0.1'')]"

definition min_environ :: environ where
  "min_environ = no_input_environ @ [(''wsgi.input'', ENone)]"

definition min_scope :: scope where
  "min_scope =
     \<lparr> sc_type = ''http'', sc_method = EStr ''GET'', sc_root_path = EStr [],
       sc_path = EStr ''/'', sc_query_string = EStr [], sc_http_version = ''1.1'',
       sc_scheme = EStr ''http'', sc_server = (EStr ''localhost'', EStr ''80''),
       sc_client = EStr ''127.0.0.1'', sc_headers = [] \<rparr>"

text \<open>The code points of a \<^verbatim>\<open>str\<close> of the environ.\<close>

definition text_of :: "string \<Rightarrow> ustr" where
  "text_of s = map of_char s"

text \<open>
  The history of the queue of one request with body \<open>b\<close>: what \<^verbatim>\<open>receive\<close> has handed
  out followed by what is still queued is the request event alone, or the request event
  and then the disconnect event once the state is \<open>COMPLETE\<close>.
\<close>

definition chan_ok :: "body_value \<Rightarrow> inst \<Rightarrow> bool" where
  "chan_ok b s =
     (received s @ app_queue s
        = HttpRequest b False # (if state s = COMPLETE then [HttpDisconnect] else []))"

text \<open>The instance as \<^verbatim>\<open>run_asgi_app\<close> sets it up before it invokes the application.\<close>

definition started :: "inst \<Rightarrow> scope \<Rightarrow> body_value \<Rightarrow> inst" where
  "started s scope b =
     s\<lparr> state := REQUEST, app_queue := [HttpRequest b False],
        app_calls := app_calls s @ [scope] \<rparr>"

text \<open>Instances along one request: as the application is invoked, after a start message
  without headers, and after the body \<open>xy\<close> is complete.\<close>

definition requested :: inst where
  "requested = started new_instance min_scope (StrBody [])"

definition responding :: inst where
  "responding = requested\<lparr> response_calls := [(''200'', [], None)], state := RESPONSE \<rparr>"

definition completed :: inst where
  "completed = responding\<lparr> body := ''xy'', state := COMPLETE,
                            app_queue := app_queue requested @ [HttpDisconnect] \<rparr>"

text \<open>Applications: one that sends the start message and one body message; one that
  awaits \<^verbatim>\<open>receive\<close> first and once more after the response; and one that awaits
  \<^verbatim>\<open>receive\<close> twice after the response.\<close>

definition hello_app :: "scope \<Rightarrow> app" where
  "hello_app scope =
     send_each [response_start 200 [(''x'', ''y'')], response_body ''hello'' False]"

definition polite_app :: "scope \<Rightarrow> app" where
  "polite_app scope =
     Receive (\<lambda>request.
       Send (response_start 200 []) (\<lambda>r1.
         Send (response_body ''hello'' False) (\<lambda>r2.
           Receive (\<lambda>disconnect. Return))))"

definition greedy_app :: "scope \<Rightarrow> app" where
  "greedy_app scope =
     Receive (\<lambda>request.
       Send (response_start 200 []) (\<lambda>r1.
         Send (response_body ''hello'' False) (\<lambda>r2.
           Receive (\<lambda>disconnect.
             Receive (\<lambda>again. Return)))))"

section \<open>Properties\<close>

subsection \<open>The \<open>send\<close> state machine\<close>

lemma str_200: "str_int 200 = ''200''"
  by (simp add: str_int_def str_nat.simps)

lemma send_illegal:
  assumes "m_type m = Some k"
    and "\<not> (state s = REQUEST \<and> k = ''http.response.start'')"
    and "\<not> (state s = RESPONSE \<and> k = ''http.response.body'')"
  shows "send s m = (Inl (TypeError (unexpected (state s) k)), s)"
  using assms by (auto simp: send_def)

lemma unexpected_inj: "unexpected st k = unexpected st' k' \<Longrightarrow> st' = st \<and> k' = k"
  by (cases st; cases st') (simp_all add: unexpected_def)

lemma send_fail_same: "send s m = (Inl e, s') \<Longrightarrow> s' = s"
  by (auto simp: send_def Let_def split: option.splits if_splits sum.splits)

lemma send_ok_cases:
  assumes "send s m = (Inr (), s')"
  shows "(state s = REQUEST \<and> state s' = RESPONSE \<and> m_type m = Some ''http.response.start'')
       \<or> (state s = RESPONSE \<and> state s' = RESPONSE \<and> m_type m = Some ''http.response.body''
            \<and> m_more_body m = Some True)
       \<or> (state s = RESPONSE \<and> state s' = COMPLETE \<and> m_type m = Some ''http.response.body''
            \<and> m_more_body m \<noteq> Some True)"
  using assms by (auto simp: send_def Let_def split: option.splits if_splits sum.splits)

text \<open>
  C2.  A message whose kind is not the one the current state accepts (anything but
  \<open>http.response.start\<close> in \<open>REQUEST\<close>, anything but \<open>http.response.body\<close> in
  \<open>RESPONSE\<close>, anything at all in \<open>COMPLETE\<close>) makes \<open>send\<close> raise the \<open>TypeError\<close>
  whose text names the state and the kind, and the instance is as it was before the call:
  state, buffer, queue and the log of callback calls.  The application goes on from the
  exception with that same instance.  The text determines the state and the kind.
\<close>

theorem protocol_violation:
  assumes "m_type m = Some k"
    and "\<not> (state s = REQUEST \<and> k = ''http.response.start'')"
    and "\<not> (state s = RESPONSE \<and> k = ''http.response.body'')"
  shows "send s m = (Inl (TypeError (unexpected (state s) k)), s)
       \<and> run (Send m c) s = run (c (Inl (TypeError (unexpected (state s) k)))) s
       \<and> (\<forall>st' k'. unexpected st' k' = unexpected (state s) k \<longrightarrow> st' = state s \<and> k' = k)"
proof -
  have 1: "send s m = (Inl (TypeError (unexpected (state s) k)), s)"
    using assms by (rule send_illegal)
  have 2: "run (Send m c) s = run (c (Inl (TypeError (unexpected (state s) k)))) s"
    by (simp add: 1)
  have 3: "\<forall>st' k'. unexpected st' k' = unexpected (state s) k \<longrightarrow> st' = state s \<and> k' = k"
    using unexpected_inj by metis
  from 1 2 3 show ?thesis by blast
qed

text \<open>A body message sent first, before any start message: the \<open>TypeError\<close>, and no
  call of the response callback.\<close>

theorem protocol_violation_witness:
  "m_type (response_body ''hello'' False) = Some ''http.response.body''
   \<and> state requested = REQUEST
   \<and> send requested (response_body ''hello'' False)
       = (Inl (TypeError (''HttpState.REQUEST: Unexpected '' @ [CHR 0x27]
            @ ''http.response.body'' @ [CHR 0x27] @ '' event received.'')), requested)
   \<and> response_calls requested = []"
proof -
  have t: "m_type (response_body ''hello'' False) = Some ''http.response.body''"
    by (simp add: response_body_def)
  have s: "state requested = REQUEST"
    by (simp add: requested_def started_def)
  have c: "response_calls requested = []"
    by (simp add: requested_def started_def new_instance_def)
  have a: "\<not> (state requested = REQUEST \<and> ''http.response.body'' = ''http.response.start'')"
    by simp
  have b: "\<not> (state requested = RESPONSE \<and> ''http.response.body'' = ''http.response.body'')"
    by (simp add: s)
  from protocol_violation[OF t a b, of "\<lambda>_. Return"] t s c show ?thesis
    by (simp add: unexpected_def)
qed

lemma send_rank: "send s m = (r, s') \<Longrightarrow> rank (state s) \<le> rank (state s')"
proof (cases r)
  case (Inl e)
  assume "send s m = (r, s')"
  with Inl have "s' = s" using send_fail_same by blast
  then show ?thesis by simp
next
  case (Inr u)
  assume "send s m = (r, s')"
  with Inr have "send s m = (Inr (), s')" by simp
  from send_ok_cases[OF this] show ?thesis by auto
qed

lemma receive_state: "receive s = Some (e, s') \<Longrightarrow> state s' = state s"
  by (auto simp: receive_def split: list.splits)

lemma run_rank: "rank (state s) \<le> rank (state (snd (run p s)))"
proof (induction p arbitrary: s)
  case Return
  show ?case by simp
next
  case (Raise e)
  show ?case by simp
next
  case (Receive k)
  show ?case
  proof (cases "receive s")
    case None
    then show ?thesis by simp
  next
    case (Some a)
    obtain e s' where a: "a = (e, s')" by (cases a)
    have "rank (state s') \<le> rank (state (snd (run (k e) s')))"
      using Receive.IH by blast
    with Some a receive_state[of s e s'] show ?thesis by simp
  qed
next
  case (Send m k)
  obtain r s' where sm: "send s m = (r, s')" by (cases "send s m")
  have "rank (state s') \<le> rank (state (snd (run (k r) s')))"
    using Send.IH by blast
  with sm send_rank[OF sm] show ?case by simp
qed

lemma rank_complete: "rank COMPLETE \<le> rank st \<Longrightarrow> st = COMPLETE"
  by (cases st) simp_all

lemma send_complete: "state s = COMPLETE \<Longrightarrow> \<exists>e. send s m = (Inl e, s)"
  by (auto simp: send_def split: option.splits)

text \<open>
  C7.  A \<open>send\<close> that returns takes \<open>REQUEST\<close> to \<open>RESPONSE\<close> (a start message), keeps
  \<open>RESPONSE\<close> (a body message with \<open>more_body\<close> true) or takes \<open>RESPONSE\<close> to
  \<open>COMPLETE\<close> (a body message with \<open>more_body\<close> absent or false); a \<open>send\<close> that raises
  and a \<open>receive\<close> leave the state as it is.  So whatever the application does, the state
  never moves back, and from \<open>COMPLETE\<close> every \<open>send\<close> raises and the state stays
  \<open>COMPLETE\<close>.
\<close>

theorem forward_path:
  "(send s m = (Inr (), s') \<longrightarrow>
      (state s = REQUEST \<and> state s' = RESPONSE \<and> m_type m = Some ''http.response.start'')
    \<or> (state s = RESPONSE \<and> state s' = RESPONSE \<and> m_type m = Some ''http.response.body''
         \<and> m_more_body m = Some True)
    \<or> (state s = RESPONSE \<and> state s' = COMPLETE \<and> m_type m = Some ''http.response.body''
         \<and> m_more_body m \<noteq> Some True))
   \<and> (send s m = (Inl e, s') \<longrightarrow> s' = s)
   \<and> (receive s = Some (ev, s') \<longrightarrow> state s' = state s)
   \<and> rank (state s) \<le> rank (state (snd (run p s)))
   \<and> (state s = COMPLETE \<longrightarrow>
        (\<exists>e. send s m = (Inl e, s)) \<and> state (snd (run p s)) = COMPLETE)"
proof -
  have 1: "send s m = (Inr (), s') \<longrightarrow>
      (state s = REQUEST \<and> state s' = RESPONSE \<and> m_type m = Some ''http.response.start'')
    \<or> (state s = RESPONSE \<and> state s' = RESPONSE \<and> m_type m = Some ''http.response.body''
         \<and> m_more_body m = Some True)
    \<or> (state s = RESPONSE \<and> state s' = COMPLETE \<and> m_type m = Some ''http.response.body''
         \<and> m_more_body m \<noteq> Some True)"
    using send_ok_cases by blast
  have 2: "send s m = (Inl e, s') \<longrightarrow> s' = s"
    using send_fail_same by blast
  have 3: "receive s = Some (ev, s') \<longrightarrow> state s' = state s"
    using receive_state by blast
  have 4: "rank (state s) \<le> rank (state (snd (run p s)))"
    by (rule run_rank)
  have 5: "state s = COMPLETE \<longrightarrow>
        (\<exists>e. send s m = (Inl e, s)) \<and> state (snd (run p s)) = COMPLETE"
  proof
    assume c: "state s = COMPLETE"
    with 4 have "rank COMPLETE \<le> rank (state (snd (run p s)))" by simp
    then have "state (snd (run p s)) = COMPLETE" by (rule rank_complete)
    with send_complete[OF c]
    show "(\<exists>e. send s m = (Inl e, s)) \<and> state (snd (run p s)) = COMPLETE"
      by blast
  qed
  from 1 2 3 4 5 show ?thesis by blast
qed

text \<open>One request along the whole path: the start message, a body message with
  \<open>more_body\<close> true, the last body message, then a message that is refused; a
  \<open>receive\<close> in between; and an application run from \<open>COMPLETE\<close>.\<close>

theorem forward_path_witness:
  "send requested (response_start 200 []) = (Inr (), responding)
   \<and> state requested = REQUEST \<and> state responding = RESPONSE
   \<and> send responding (response_body ''x'' True) = (Inr (), responding\<lparr> body := ''x'' \<rparr>)
   \<and> state (responding\<lparr> body := ''x'' \<rparr>) = RESPONSE
   \<and> send (responding\<lparr> body := ''x'' \<rparr>) (response_body ''y'' False) = (Inr (), completed)
   \<and> state completed = COMPLETE
   \<and> send completed (response_body ''z'' False)
       = (Inl (TypeError (unexpected COMPLETE ''http.response.body'')), completed)
   \<and> receive requested
       = Some (HttpRequest (StrBody []) False,
               requested\<lparr> app_queue := [], received := [HttpRequest (StrBody []) False] \<rparr>)
   \<and> state (snd (run (send_each [response_start 200 [], response_body ''x'' False])
                   completed)) = COMPLETE"
proof -
  have 1: "send requested (response_start 200 []) = (Inr (), responding)"
    by (simp add: send_def requested_def responding_def started_def new_instance_def
          response_start_def str_200)
  have 2: "send responding (response_body ''x'' True) = (Inr (), responding\<lparr> body := ''x'' \<rparr>)"
    by (simp add: send_def requested_def responding_def started_def new_instance_def
          response_body_def)
  have 3: "send (responding\<lparr> body := ''x'' \<rparr>) (response_body ''y'' False) = (Inr (), completed)"
    by (simp add: send_def requested_def responding_def completed_def started_def
          new_instance_def response_body_def)
  have 4: "send completed (response_body ''z'' False)
       = (Inl (TypeError (unexpected COMPLETE ''http.response.body'')), completed)"
    by (simp add: send_def completed_def response_body_def)
  have 5: "receive requested
       = Some (HttpRequest (StrBody []) False,
               requested\<lparr> app_queue := [], received := [HttpRequest (StrBody []) False] \<rparr>)"
    by (simp add: receive_def requested_def started_def new_instance_def)
  have c: "state completed = COMPLETE"
    by (simp add: completed_def)
  note f = forward_path[where s = completed and m = "response_body ''z'' False"
      and s' = completed and e = "TypeError (unexpected COMPLETE ''http.response.body'')"
      and ev = HttpDisconnect
      and p = "send_each [response_start 200 [], response_body ''x'' False]"]
  have s0: "state requested = REQUEST"
    by (simp add: requested_def started_def)
  have s1: "state responding = RESPONSE"
    by (simp add: responding_def)
  have s2: "state (responding\<lparr> body := ''x'' \<rparr>) = RESPONSE"
    by (simp add: responding_def)
  have r: "state (snd (run (send_each [response_start 200 [], response_body ''x'' False])
                   completed)) = COMPLETE"
    using f[THEN conjunct2, THEN conjunct2, THEN conjunct2, THEN conjunct2] c by blast
  show ?thesis
    using 1 s0 s1 2 s2 3 c 4 5 r by (intro conjI)
qed

text \<open>
  C10.  A start message without \<open>headers\<close> calls the response callback with the empty
  header list; a body message without \<open>body\<close> leaves the buffer as it is; a body message
  without \<open>more_body\<close> does what one with \<open>more_body\<close> false does: it appends its bytes,
  moves to \<open>COMPLETE\<close> and puts the disconnect event on the queue.
\<close>

theorem defaults:
  "(state s = REQUEST \<and> m_type m = Some ''http.response.start'' \<and> m_status m = Some st
      \<and> m_headers m = None \<longrightarrow>
      send s m = (Inr (), s\<lparr> response_calls := response_calls s @ [(str_int st, [], None)],
                               state := RESPONSE \<rparr>))
   \<and> (state s = RESPONSE \<and> m_type m = Some ''http.response.body'' \<and> m_body m = None
      \<longrightarrow> body (snd (send s m)) = body s)
   \<and> (state s = RESPONSE \<and> m_type m = Some ''http.response.body'' \<and> m_more_body m = None
      \<longrightarrow> send s m = send s (m\<lparr> m_more_body := Some False \<rparr>)
        \<and> send s m = (Inr (), s\<lparr> body := body s @ payload m, state := COMPLETE,
                                   app_queue := app_queue s @ [HttpDisconnect] \<rparr>))"
  by (simp add: send_def payload_def Let_def)

text \<open>A start message without headers sent first; a body message without bytes on a
  buffer that holds \<open>ab\<close>; a body message without \<open>more_body\<close>.\<close>

theorem defaults_witness:
  "send requested
        \<lparr> m_type = Some ''http.response.start'', m_status = Some 200, m_headers = None,
          m_body = None, m_more_body = None \<rparr>
     = (Inr (), responding)
   \<and> body (snd (send (responding\<lparr> body := ''ab'' \<rparr>)
                  \<lparr> m_type = Some ''http.response.body'', m_status = None, m_headers = None,
                    m_body = None, m_more_body = Some True \<rparr>)) = ''ab''
   \<and> send responding
        \<lparr> m_type = Some ''http.response.body'', m_status = None, m_headers = None,
          m_body = Some ''cd'', m_more_body = None \<rparr>
     = (Inr (), responding\<lparr> body := ''cd'', state := COMPLETE,
                             app_queue := [HttpRequest (StrBody []) False, HttpDisconnect] \<rparr>)"
  using defaults[where s = requested and st = 200
      and m = "\<lparr> m_type = Some ''http.response.start'', m_status = Some 200,
                 m_headers = None, m_body = None, m_more_body = None \<rparr>"]
    defaults[where s = "responding\<lparr> body := ''ab'' \<rparr>" and st = 200
      and m = "\<lparr> m_type = Some ''http.response.body'', m_status = None, m_headers = None,
                 m_body = None, m_more_body = Some True \<rparr>"]
    defaults[where s = responding and st = 200
      and m = "\<lparr> m_type = Some ''http.response.body'', m_status = None, m_headers = None,
                 m_body = Some ''cd'', m_more_body = None \<rparr>"]
  by (simp add: requested_def responding_def started_def new_instance_def payload_def
        str_200 send_def)

subsection \<open>The body buffer\<close>

lemma send_more:
  assumes "state s = RESPONSE" "m_type m = Some ''http.response.body''"
    "m_more_body m = Some True"
  shows "send s m = (Inr (), s\<lparr> body := body s @ payload m \<rparr>)"
  using assms by (simp add: send_def payload_def)

lemma send_last:
  assumes "state s = RESPONSE" "m_type m = Some ''http.response.body''"
    "m_more_body m \<noteq> Some True"
  shows "send s m = (Inr (), s\<lparr> body := body s @ payload m, state := COMPLETE,
                                 app_queue := app_queue s @ [HttpDisconnect] \<rparr>)"
  using assms by (cases "m_more_body m") (simp_all add: send_def payload_def)

text \<open>
  C6.  In \<open>RESPONSE\<close>, body messages with \<open>more_body\<close> true followed by a last body
  message (\<open>more_body\<close> false or absent), sent in this order: every \<open>send\<close> returns, and
  the buffer ends as what it held before followed by the bytes of all these messages in
  the order they were sent; the state is \<open>COMPLETE\<close>.
\<close>

theorem body_concat:
  assumes "\<forall>m \<in> set ms. m_type m = Some ''http.response.body'' \<and> m_more_body m = Some True"
    and "state s = RESPONSE"
    and "m_type fin = Some ''http.response.body''" "m_more_body fin \<noteq> Some True"
  shows "run (send_each (ms @ [fin])) s =
           (Returned (), s\<lparr> body := body s @ concat (map payload (ms @ [fin])),
                            state := COMPLETE,
                            app_queue := app_queue s @ [HttpDisconnect] \<rparr>)"
  using assms
proof (induction ms arbitrary: s)
  case Nil
  then show ?case by (simp add: send_last)
next
  case (Cons m ms)
  have m: "m_type m = Some ''http.response.body''" "m_more_body m = Some True"
    using Cons.prems(1) by simp_all
  let ?s1 = "s\<lparr> body := body s @ payload m \<rparr>"
  have s1: "send s m = (Inr (), ?s1)"
    using Cons.prems(2) m by (rule send_more)
  have "run (send_each (ms @ [fin])) ?s1 =
          (Returned (), ?s1\<lparr> body := body ?s1 @ concat (map payload (ms @ [fin])),
                              state := COMPLETE,
                              app_queue := app_queue ?s1 @ [HttpDisconnect] \<rparr>)"
    using Cons.prems by (intro Cons.IH) simp_all
  with s1 show ?case by simp
qed

text \<open>Three body messages \<open>ab\<close>, \<open>cd\<close>, \<open>ef\<close> after the start message: the buffer is
  \<open>abcdef\<close>.\<close>

theorem body_concat_witness:
  "m_type (response_body ''ab'' True) = Some ''http.response.body''
   \<and> m_more_body (response_body ''ab'' True) = Some True
   \<and> m_type (response_body ''cd'' True) = Some ''http.response.body''
   \<and> m_more_body (response_body ''cd'' True) = Some True
   \<and> m_type (response_body ''ef'' False) = Some ''http.response.body''
   \<and> m_more_body (response_body ''ef'' False) \<noteq> Some True
   \<and> state responding = RESPONSE \<and> body responding = []
   \<and> run (send_each [response_body ''ab'' True, response_body ''cd'' True,
                      response_body ''ef'' False]) responding
       = (Returned (), responding\<lparr> body := ''abcdef'', state := COMPLETE,
                                   app_queue := app_queue responding @ [HttpDisconnect] \<rparr>)"
proof -
  have a: "\<forall>m \<in> set [response_body ''ab'' True, response_body ''cd'' True].
             m_type m = Some ''http.response.body'' \<and> m_more_body m = Some True"
    by (simp add: response_body_def)
  have b: "state responding = RESPONSE"
    by (simp add: responding_def)
  have c: "m_type (response_body ''ef'' False) = Some ''http.response.body''"
    by (simp add: response_body_def)
  have d: "m_more_body (response_body ''ef'' False) \<noteq> Some True"
    by (simp add: response_body_def)
  have e: "body responding = []"
    by (simp add: responding_def requested_def started_def new_instance_def)
  have p: "concat (map payload [response_body ''ab'' True, response_body ''cd'' True,
                                response_body ''ef'' False]) = ''abcdef''"
    by (simp add: payload_def response_body_def)
  from body_concat[OF a b c d] p a b c d e show ?thesis
    by simp
qed

subsection \<open>The precondition and the scope\<close>

lemma bind_Inr: "bind r f = Inr y \<longleftrightarrow> (\<exists>x. r = Inr x \<and> f x = Inr y)"
  by (cases r) (simp_all add: bind_def)

lemma bind_Inl: "bind r f = Inl e \<longleftrightarrow> r = Inl e \<or> (\<exists>x. r = Inr x \<and> f x = Inl e)"
  by (cases r) (simp_all add: bind_def)

lemma header_loop_spec:
  "header_loop environ acc = Inr hs \<Longrightarrow> hs = acc @ spec_headers environ"
proof (induction environ acc rule: header_loop.induct)
  case (1 headers)
  then show ?case by (simp add: spec_headers_def)
next
  case (2 name "value" items headers)
  show ?case
  proof (cases "corrected_name name")
    case None
    then have "spec_header (name, value) = []"
      by (cases "value") (simp_all add: spec_header_def corrected_name_def split: if_splits)
    with None 2 show ?thesis by (simp add: spec_headers_def)
  next
    case (Some cn)
    with "2.prems" obtain v where v: "value = EStr v"
      by (cases "value") simp_all
    from Some have "spec_header (name, EStr v) = [(encode_utf8 cn, encode_utf8 v)]"
      by (auto simp: spec_header_def corrected_name_def split: if_splits)
    with Some v 2 show ?thesis by (simp add: spec_headers_def)
  qed
qed

lemma header_loop_total:
  "header_values_str environ \<Longrightarrow> \<exists>hs. header_loop environ acc = Inr hs"
proof (induction environ acc rule: header_loop.induct)
  case (1 headers)
  show ?case by simp
next
  case (2 name "value" items headers)
  then show ?case
    by (cases "corrected_name name"; cases "value") (simp_all add: header_values_str_def)
qed

lemma header_loop_error:
  "header_loop environ acc = Inl e \<Longrightarrow> e = AttributeError \<and> \<not> header_values_str environ"
proof (induction environ acc rule: header_loop.induct)
  case (1 headers)
  then show ?case by simp
next
  case (2 name "value" items headers)
  then show ?case
    by (cases "corrected_name name"; cases "value") (simp_all add: header_values_str_def)
qed

lemma build_ok:
  assumes "build_scope_and_body environ = Inr (sc, b)"
  shows "header_loop environ [] = Inr (sc_headers sc)
       \<and> (\<exists>w. getitem environ ''wsgi.input'' = Inr w \<and> read_body w = Inr b)"
  using assms by (auto simp: build_scope_and_body_def bind_Inr)

lemma build_error_cases:
  assumes "build_scope_and_body environ = Inl e"
    and "getitem environ ''SERVER_PROTOCOL'' = Inr (EStr p)"
    and "map_of environ ''wsgi.input'' = None"
    and "header_values_str environ"
  shows "\<exists>key. e = KeyError key"
proof -
  have h: "header_loop environ [] \<noteq> Inl e \<or> (\<exists>key. e = KeyError key)"
    using header_loop_error assms(4) by blast
  from assms(1) h show ?thesis
    using assms(2,3)
    by (auto simp: build_scope_and_body_def bind_Inl getitem_def slice5_def split: option.splits)
qed

lemma build_no_input:
  assumes "map_of environ ''wsgi.input'' = None"
  shows "\<exists>e. build_scope_and_body environ = Inl e"
proof (cases "build_scope_and_body environ")
  case (Inl e)
  then show ?thesis by blast
next
  case (Inr r)
  obtain sc b where "r = (sc, b)" by (cases r)
  with Inr build_ok[of environ sc b] assms show ?thesis
    by (simp add: getitem_def)
qed

lemma build_wsgi_input_key:
  assumes "map_of environ ''SERVER_PROTOCOL'' = Some (EStr p)"
    and "map_of environ ''wsgi.input'' = None"
    and "header_values_str environ"
    and "list_all (\<lambda>k. map_of environ k \<noteq> None) required_keys"
  shows "build_scope_and_body environ = Inl (KeyError ''wsgi.input'')"
proof -
  obtain hs where hs: "header_loop environ [] = Inr hs"
    using header_loop_total[OF assms(3)] by blast
  from assms(4) obtain a1 a2 a3 a4 a5 a6 a7 where
    "map_of environ ''REQUEST_METHOD'' = Some a1" "map_of environ ''SCRIPT_NAME'' = Some a2"
    "map_of environ ''PATH_INFO'' = Some a3" "map_of environ ''QUERY_STRING'' = Some a4"
    "map_of environ ''SERVER_NAME'' = Some a5" "map_of environ ''SERVER_PORT'' = Some a6"
    "map_of environ ''REMOTE_ADDR'' = Some a7"
    by (auto simp: required_keys_def)
  with hs assms(1,2) show ?thesis
    by (simp add: build_scope_and_body_def bind_def getitem_def slice5_def)
qed

text \<open>
  C3.  When \<open>SERVER_PROTOCOL\<close> is a string that does not start with \<open>HTTP\<close>, the call
  raises the \<open>ValueError\<close> and the instance is as it was: whatever else the environ holds
  (the scope is not built, so no missing key is noticed), and whatever the application
  is (it is not invoked, nothing is queued or received).
\<close>

theorem non_http_environ:
  assumes "map_of environ ''SERVER_PROTOCOL'' = Some (EStr p)"
    and "\<not> startswith p ''HTTP''"
  shows "instance_call asgi_application s environ
           = (Raised (ValueError ''ASGI wrapper received a non-HTTP environ''), s)
       \<and> asgi_to_wsgi asgi_application environ
           = (Raised (ValueError ''ASGI wrapper received a non-HTTP environ''), new_instance)"
  using assms by (simp add: asgi_to_wsgi_def instance_call_def getitem_def)

text \<open>An environ that holds \<open>SERVER_PROTOCOL = FTP/1.0\<close> and nothing else, for which
  building the scope would raise \<open>KeyError\<close>, and an application that would raise when
  invoked.\<close>

theorem non_http_environ_witness:
  "map_of [(''SERVER_PROTOCOL'', EStr ''FTP/1.0'')] ''SERVER_PROTOCOL'' = Some (EStr ''FTP/1.0'')
   \<and> \<not> startswith ''FTP/1.0'' ''HTTP''
   \<and> build_scope_and_body [(''SERVER_PROTOCOL'', EStr ''FTP/1.0'')]
       = Inl (KeyError ''REQUEST_METHOD'')
   \<and> asgi_to_wsgi (\<lambda>scope. Raise (ApplicationError ''called''))
        [(''SERVER_PROTOCOL'', EStr ''FTP/1.0'')]
      = (Raised (ValueError ''ASGI wrapper received a non-HTTP environ''), new_instance)
   \<and> app_calls new_instance = [] \<and> received new_instance = []"
proof -
  have a: "map_of [(''SERVER_PROTOCOL'', EStr ''FTP/1.0'')] ''SERVER_PROTOCOL''
             = Some (EStr ''FTP/1.0'')"
    by simp
  have b: "\<not> startswith ''FTP/1.0'' ''HTTP''"
    by (simp add: startswith_def)
  have c: "build_scope_and_body [(''SERVER_PROTOCOL'', EStr ''FTP/1.0'')]
             = Inl (KeyError ''REQUEST_METHOD'')"
    by (simp add: build_scope_and_body_def bind_def corrected_name_def startswith_def getitem_def)
  from non_http_environ[OF a b] a b c show ?thesis
    by (simp add: new_instance_def)
qed

text \<open>
  C4.  When \<open>build_scope_and_body\<close> returns a scope, its headers are the headers of the
  specification's rule, item by item in the order of the environ.  The loop returns them
  whenever every key that gives a header holds a string.
\<close>

theorem scope_headers:
  "(build_scope_and_body environ = Inr (sc, b) \<longrightarrow> sc_headers sc = spec_headers environ)
   \<and> (header_values_str environ \<longrightarrow> header_loop environ [] = Inr (spec_headers environ))"
proof -
  have 1: "build_scope_and_body environ = Inr (sc, b) \<longrightarrow> sc_headers sc = spec_headers environ"
  proof
    assume "build_scope_and_body environ = Inr (sc, b)"
    then have "header_loop environ [] = Inr (sc_headers sc)"
      using build_ok by blast
    from header_loop_spec[OF this] show "sc_headers sc = spec_headers environ" by simp
  qed
  have 2: "header_values_str environ \<longrightarrow> header_loop environ [] = Inr (spec_headers environ)"
  proof
    assume "header_values_str environ"
    then obtain hs where hs: "header_loop environ [] = Inr hs"
      using header_loop_total by blast
    from header_loop_spec[OF this] hs
    show "header_loop environ [] = Inr (spec_headers environ)" by simp
  qed
  from 1 2 show ?thesis by blast
qed

text \<open>\<open>HTTP_X_FOO\<close>, \<open>CONTENT_TYPE\<close> and \<open>CONTENT_LENGTH\<close> among other keys: three
  headers, in the order of the environ; \<open>wsgi.url_scheme\<close> between them gives none.\<close>

theorem scope_headers_witness:
  "build_scope_and_body header_environ = Inr (header_scope, BytesBody ''hello'')
   \<and> header_values_str header_environ
   \<and> spec_headers header_environ = sc_headers header_scope
   \<and> header_loop header_environ []
       = Inr [(''x-foo'', ''Bar''), (''content-type'', ''text/plain''), (''content-length'', ''5'')]"
proof -
  have a: "build_scope_and_body header_environ = Inr (header_scope, BytesBody ''hello'')"
    by code_simp
  have b: "header_values_str header_environ"
    by code_simp
  have c: "sc_headers header_scope
             = [(''x-foo'', ''Bar''), (''content-type'', ''text/plain''), (''content-length'', ''5'')]"
    by (simp add: header_scope_def)
  from scope_headers[of header_environ header_scope "BytesBody ''hello''"] a b c
  show ?thesis by simp
qed

text \<open>
  C9.  When \<open>SERVER_PROTOCOL\<close> passes the check and the environ has no \<open>wsgi.input\<close>
  key, \<open>build_scope_and_body\<close> raises, the call raises the same exception and the
  instance is as it was (the application is not invoked).  With string values at the
  header keys the exception is a \<open>KeyError\<close>, and it is the one for \<open>wsgi.input\<close> when
  the other keys the scope needs are there.
\<close>

theorem missing_input_key:
  assumes "map_of environ ''SERVER_PROTOCOL'' = Some (EStr p)"
    and "startswith p ''HTTP''"
    and "map_of environ ''wsgi.input'' = None"
  shows "\<exists>e. build_scope_and_body environ = Inl e
           \<and> instance_call asgi_application s environ = (Raised e, s)
           \<and> (header_values_str environ \<longrightarrow> (\<exists>key. e = KeyError key))
           \<and> (header_values_str environ
                \<and> list_all (\<lambda>k. map_of environ k \<noteq> None) required_keys
              \<longrightarrow> e = KeyError ''wsgi.input'')"
proof -
  obtain e where e: "build_scope_and_body environ = Inl e"
    using build_no_input[OF assms(3)] by blast
  have g: "getitem environ ''SERVER_PROTOCOL'' = Inr (EStr p)"
    using assms(1) by (simp add: getitem_def)
  have 1: "instance_call asgi_application s environ = (Raised e, s)"
    using e g assms(2) by (simp add: instance_call_def)
  have 2: "header_values_str environ \<longrightarrow> (\<exists>key. e = KeyError key)"
    using build_error_cases[OF e g assms(3)] by blast
  have 3: "header_values_str environ
             \<and> list_all (\<lambda>k. map_of environ k \<noteq> None) required_keys
           \<longrightarrow> e = KeyError ''wsgi.input''"
    using build_wsgi_input_key[OF assms(1) assms(3)] e by auto
  from e 1 2 3 show ?thesis by blast
qed

text \<open>The minimal environ without its \<open>wsgi.input\<close> item, and an application that
  would raise when invoked.\<close>

theorem missing_input_key_witness:
  "map_of no_input_environ ''SERVER_PROTOCOL'' = Some (EStr ''HTTP/1.1'')
   \<and> startswith ''HTTP/1.1'' ''HTTP''
   \<and> map_of no_input_environ ''wsgi.input'' = None
   \<and> header_values_str no_input_environ
   \<and> list_all (\<lambda>k. map_of no_input_environ k \<noteq> None) required_keys
   \<and> build_scope_and_body no_input_environ = Inl (KeyError ''wsgi.input'')
   \<and> asgi_to_wsgi (\<lambda>scope. Raise (ApplicationError ''called'')) no_input_environ
       = (Raised (KeyError ''wsgi.input''), new_instance)
   \<and> app_calls new_instance = []"
proof -
  have a: "map_of no_input_environ ''SERVER_PROTOCOL'' = Some (EStr ''HTTP/1.1'')"
    by (simp add: no_input_environ_def)
  have b: "startswith ''HTTP/1.1'' ''HTTP''"
    by (simp add: startswith_def)
  have c: "map_of no_input_environ ''wsgi.input'' = None"
    by (simp add: no_input_environ_def)
  have d: "header_values_str no_input_environ"
    by code_simp
  have r: "list_all (\<lambda>k. map_of no_input_environ k \<noteq> None) required_keys"
    by (simp add: no_input_environ_def required_keys_def)
  from missing_input_key[OF a b c, of "\<lambda>scope. Raise (ApplicationError ''called'')" new_instance]
    a b c d r show ?thesis
    by (auto simp: asgi_to_wsgi_def new_instance_def)
qed

subsection \<open>The queue\<close>

lemma send_chan: "chan_ok b s \<Longrightarrow> send s m = (r, s') \<Longrightarrow> chan_ok b s'"
  by (auto simp: send_def chan_ok_def Let_def split: option.splits if_splits sum.splits)

lemma receive_chan: "chan_ok b s \<Longrightarrow> receive s = Some (e, s') \<Longrightarrow> chan_ok b s'"
  by (auto simp: receive_def chan_ok_def split: list.splits)

lemma run_chan: "chan_ok b s \<Longrightarrow> chan_ok b (snd (run p s))"
proof (induction p arbitrary: s)
  case Return
  then show ?case by simp
next
  case (Raise e)
  then show ?case by simp
next
  case (Receive k)
  show ?case
  proof (cases "receive s")
    case None
    with Receive.prems show ?thesis by simp
  next
    case (Some a)
    obtain e s' where a: "a = (e, s')" by (cases a)
    have "chan_ok b s'"
      using Receive.prems Some a receive_chan by blast
    then have "chan_ok b (snd (run (k e) s'))"
      using Receive.IH by blast
    with Some a show ?thesis by simp
  qed
next
  case (Send m k)
  obtain r s' where sm: "send s m = (r, s')" by (cases "send s m")
  have "chan_ok b s'"
    using Send.prems sm send_chan by blast
  then have "chan_ok b (snd (run (k r) s'))"
    using Send.IH by blast
  with sm show ?case by simp
qed

lemma started_chan: "received s = [] \<Longrightarrow> chan_ok b (started s scope b)"
  by (simp add: chan_ok_def started_def)

lemma run_asgi_app_started:
  "run_asgi_app asgi_application s scope b = run (asgi_application scope) (started s scope b)"
  by (simp add: run_asgi_app_def started_def)

lemma build_body:
  assumes "build_scope_and_body environ = Inr (sc, b)"
  shows "(\<exists>content. map_of environ ''wsgi.input'' = Some (EStream content)
                    \<and> b = BytesBody content)
       \<or> (map_of environ ''wsgi.input'' = Some ENone \<and> b = StrBody [])"
proof -
  from build_ok[OF assms] obtain w
    where w: "getitem environ ''wsgi.input'' = Inr w" "read_body w = Inr b"
    by blast
  then show ?thesis
    by (cases w) (auto simp: getitem_def read_body_def split: option.splits)
qed

lemma complete_next:
  assumes "chan_ok b s" "state s = RESPONSE" "send s m = (Inr (), s')" "state s' = COMPLETE"
  shows "app_queue s' = app_queue s @ [HttpDisconnect]
       \<and> (\<exists>e' s''. receive s' = Some (e', s'')
             \<and> (if received s = [] then e' = HttpRequest b False else e' = HttpDisconnect))"
proof -
  have q: "app_queue s' = app_queue s @ [HttpDisconnect]"
    using assms(2,3,4) by (auto simp: send_def Let_def split: option.splits if_splits)
  from assms(1,2) have h: "received s @ app_queue s = [HttpRequest b False]"
    by (simp add: chan_ok_def)
  show ?thesis
  proof (cases "received s")
    case Nil
    with h have "app_queue s = [HttpRequest b False]" by simp
    with q Nil show ?thesis by (simp add: receive_def)
  next
    case (Cons x xs)
    with h have "app_queue s = []" by simp
    with q Cons show ?thesis by (simp add: receive_def)
  qed
qed

lemma all_received:
  assumes "chan_ok b s" "length (received s) = 2"
  shows "state s = COMPLETE \<and> receive s = None"
proof -
  have "length (received s @ app_queue s)
          = length (HttpRequest b False # (if state s = COMPLETE then [HttpDisconnect] else []))"
    using assms(1) by (simp only: chan_ok_def)
  with assms(2) have "state s = COMPLETE \<and> app_queue s = []"
    by (simp split: if_splits)
  then show ?thesis by (simp add: receive_def)
qed

subsection \<open>Runs of the example applications\<close>

lemma decode_xy: "decode_headers [(''x'', ''y'')] [] = Inr [(text_of ''x'', text_of ''y'')]"
  by (simp add: bind_def decode_utf8_def text_of_def)

lemma build_min: "build_scope_and_body min_environ = Inr (min_scope, StrBody [])"
  by code_simp

lemma protocol_min: "getitem min_environ ''SERVER_PROTOCOL'' = Inr (EStr ''HTTP/1.1'')"
  by (simp add: getitem_def min_environ_def no_input_environ_def)

lemma run_polite:
  "run_asgi_app polite_app new_instance min_scope (StrBody [])
       = (Returned (),
          \<lparr> state = COMPLETE, app_queue = [], body = ''hello'',
            response_calls = [(''200'', [], None)], app_calls = [min_scope],
            received = [HttpRequest (StrBody []) False, HttpDisconnect] \<rparr>)"
  by (simp add: run_asgi_app_def polite_app_def receive_def send_def response_start_def
        response_body_def new_instance_def str_200)

lemma run_greedy:
  "run_asgi_app greedy_app new_instance min_scope (StrBody [])
       = (Hangs,
          \<lparr> state = COMPLETE, app_queue = [], body = ''hello'',
            response_calls = [(''200'', [], None)], app_calls = [min_scope],
            received = [HttpRequest (StrBody []) False, HttpDisconnect] \<rparr>)"
  by (simp add: run_asgi_app_def greedy_app_def receive_def send_def response_start_def
        response_body_def new_instance_def str_200)

lemma call_min:
  "asgi_to_wsgi asgi_application min_environ =
     (case run_asgi_app asgi_application new_instance min_scope (StrBody []) of
        (Returned _, s') \<Rightarrow> (Returned [body s'], s')
      | (Raised e, s') \<Rightarrow> (Raised e, s')
      | (Hangs, s') \<Rightarrow> (Hangs, s'))"
  by (simp add: asgi_to_wsgi_def instance_call_def protocol_min build_min startswith_def)

text \<open>
  The body \<open>build_scope_and_body\<close> returns is all the bytes of the stream at
  \<open>wsgi.input\<close>, or the empty \<^verbatim>\<open>str\<close> when \<open>wsgi.input\<close> is \<open>None\<close>.
  \<open>run_asgi_app\<close> queues it whole in one request event with \<open>more_body\<close> false: that
  is what the first \<open>receive\<close> of the application gets, and on a new instance no other
  request event is ever queued or received.
\<close>

lemma body_whole:
  "(build_scope_and_body environ = Inr (sc, b) \<longrightarrow>
      (\<exists>content. map_of environ ''wsgi.input'' = Some (EStream content)
                   \<and> b = BytesBody content)
    \<or> (map_of environ ''wsgi.input'' = Some ENone \<and> b = StrBody []))
   \<and> run_asgi_app (\<lambda>scope. Receive k) s sc b
       = run (k (HttpRequest b False))
           ((started s sc b)\<lparr> app_queue := [],
                                received := received s @ [HttpRequest b False] \<rparr>)
   \<and> (received s = [] \<longrightarrow>
        chan_ok b (snd (run_asgi_app asgi_application s sc b)))"
proof -
  have 1: "build_scope_and_body environ = Inr (sc, b) \<longrightarrow>
      (\<exists>content. map_of environ ''wsgi.input'' = Some (EStream content)
                   \<and> b = BytesBody content)
    \<or> (map_of environ ''wsgi.input'' = Some ENone \<and> b = StrBody [])"
    using build_body by blast
  have 2: "run_asgi_app (\<lambda>scope. Receive k) s sc b
       = run (k (HttpRequest b False))
           ((started s sc b)\<lparr> app_queue := [],
                                received := received s @ [HttpRequest b False] \<rparr>)"
    by (simp add: run_asgi_app_started receive_def started_def)
  have 3: "received s = [] \<longrightarrow> chan_ok b (snd (run_asgi_app asgi_application s sc b))"
    using run_chan[OF started_chan] by (simp add: run_asgi_app_started)
  from 1 2 3 show ?thesis by blast
qed

text \<open>The environ with the stream \<open>hello\<close>, and an application that awaits \<open>receive\<close>
  once and returns.\<close>

lemma body_whole_stream:
  "build_scope_and_body header_environ = Inr (header_scope, BytesBody ''hello'')
   \<and> map_of header_environ ''wsgi.input'' = Some (EStream ''hello'')
   \<and> received new_instance = []
   \<and> run_asgi_app (\<lambda>scope. Receive (\<lambda>request. Return)) new_instance header_scope
        (BytesBody ''hello'')
       = (Returned (),
          (started new_instance header_scope (BytesBody ''hello''))
            \<lparr> app_queue := [], received := [HttpRequest (BytesBody ''hello'') False] \<rparr>)
   \<and> chan_ok (BytesBody ''hello'')
        (snd (run_asgi_app hello_app new_instance header_scope (BytesBody ''hello'')))"
proof -
  have a: "build_scope_and_body header_environ = Inr (header_scope, BytesBody ''hello'')"
    by code_simp
  have m: "map_of header_environ ''wsgi.input'' = Some (EStream ''hello'')"
    by (simp add: header_environ_def)
  have r: "received new_instance = []"
    by (simp add: new_instance_def)
  note rb = body_whole[of header_environ header_scope "BytesBody ''hello''"
      "\<lambda>request. Return" new_instance hello_app]
  have 2: "run_asgi_app (\<lambda>scope. Receive (\<lambda>request. Return)) new_instance header_scope
        (BytesBody ''hello'')
       = (Returned (),
          (started new_instance header_scope (BytesBody ''hello''))
            \<lparr> app_queue := [], received := [HttpRequest (BytesBody ''hello'') False] \<rparr>)"
    unfolding rb[THEN conjunct2, THEN conjunct1] by (simp add: r)
  have 3: "chan_ok (BytesBody ''hello'')
        (snd (run_asgi_app hello_app new_instance header_scope (BytesBody ''hello'')))"
    using rb[THEN conjunct2, THEN conjunct2] r by (rule mp)
  show ?thesis
    using a m r 2 3 by (intro conjI)
qed

text \<open>
  C8.  The claim gives the body as bytes in both cases.  With a stream at \<open>wsgi.input\<close>
  the source returns the bytes read from it.  With \<open>wsgi.input\<close> set to \<open>None\<close> the
  source returns the \<^verbatim>\<open>str\<close> literal \<^verbatim>\<open>''\<close>, against its own annotations
  (\<^verbatim>\<open>Tuple[Dict[str, Any], bytes]\<close> on \<^verbatim>\<open>build_scope_and_body\<close>, \<^verbatim>\<open>body: bytes\<close> on
  \<^verbatim>\<open>run_asgi_app\<close>): on the minimal environ the body is the empty \<^verbatim>\<open>str\<close>, which is
  not a bytes value, and that \<^verbatim>\<open>str\<close> is what the request event hands to the
  application.
\<close>

theorem none_input_body_is_str:
  "map_of min_environ ''wsgi.input'' = Some ENone
   \<and> build_scope_and_body min_environ = Inr (min_scope, StrBody [])
   \<and> StrBody [] \<noteq> BytesBody []
   \<and> receive (started new_instance min_scope (StrBody []))
       = Some (HttpRequest (StrBody []) False,
               (started new_instance min_scope (StrBody []))
                 \<lparr> app_queue := [], received := [HttpRequest (StrBody []) False] \<rparr>)
   \<and> map_of header_environ ''wsgi.input'' = Some (EStream ''hello'')
   \<and> build_scope_and_body header_environ = Inr (header_scope, BytesBody ''hello'')"
proof -
  have 1: "map_of min_environ ''wsgi.input'' = Some ENone"
    by (simp add: min_environ_def no_input_environ_def)
  have 2: "build_scope_and_body min_environ = Inr (min_scope, StrBody [])"
    by (rule build_min)
  have 3: "StrBody [] \<noteq> BytesBody []"
    by simp
  have 4: "receive (started new_instance min_scope (StrBody []))
       = Some (HttpRequest (StrBody []) False,
               (started new_instance min_scope (StrBody []))
                 \<lparr> app_queue := [], received := [HttpRequest (StrBody []) False] \<rparr>)"
    by (simp add: receive_def started_def new_instance_def)
  have 5: "map_of header_environ ''wsgi.input'' = Some (EStream ''hello'')"
    by (simp add: header_environ_def)
  have 6: "build_scope_and_body header_environ = Inr (header_scope, BytesBody ''hello'')"
    by code_simp
  show ?thesis
    using 1 2 3 4 5 6 by (intro conjI)
qed

text \<open>
  C5, as the source has it.  The history of the queue is the request event, followed
  by the disconnect event exactly when the state is \<open>COMPLETE\<close>: this holds when the
  application is invoked and after every \<open>send\<close> and \<open>receive\<close>, so at the end of any
  run.  \<open>receive\<close> hands out the head of the queue.  The \<open>send\<close> that completes the body
  appends the disconnect event, so the next \<open>receive\<close> does not suspend; it gets the
  disconnect event when the request event was received before.  Once both events are
  received, a further \<open>receive\<close> suspends for ever.
\<close>

theorem channel_order:
  "(received s = [] \<longrightarrow> chan_ok b (started s sc b)
       \<and> chan_ok b (snd (run_asgi_app asgi_application s sc b)))
   \<and> (chan_ok b s \<and> send s m = (r, s') \<longrightarrow> chan_ok b s')
   \<and> (chan_ok b s \<and> receive s = Some (e, s') \<longrightarrow>
        chan_ok b s' \<and> app_queue s = e # app_queue s' \<and> received s' = received s @ [e])
   \<and> (chan_ok b s \<and> state s = RESPONSE \<and> send s m = (Inr (), s') \<and> state s' = COMPLETE
        \<longrightarrow> app_queue s' = app_queue s @ [HttpDisconnect]
          \<and> (\<exists>e' s''. receive s' = Some (e', s'')
                \<and> (if received s = [] then e' = HttpRequest b False else e' = HttpDisconnect)))
   \<and> (chan_ok b s \<and> length (received s) = 2 \<longrightarrow> state s = COMPLETE \<and> receive s = None)"
proof -
  have 1: "received s = [] \<longrightarrow> chan_ok b (started s sc b)
       \<and> chan_ok b (snd (run_asgi_app asgi_application s sc b))"
    using run_chan[OF started_chan] started_chan by (simp add: run_asgi_app_started)
  have 2: "chan_ok b s \<and> send s m = (r, s') \<longrightarrow> chan_ok b s'"
    using send_chan by blast
  have 3: "chan_ok b s \<and> receive s = Some (e, s') \<longrightarrow>
        chan_ok b s' \<and> app_queue s = e # app_queue s' \<and> received s' = received s @ [e]"
    using receive_chan by (auto simp: receive_def split: list.splits)
  have 4: "chan_ok b s \<and> state s = RESPONSE \<and> send s m = (Inr (), s') \<and> state s' = COMPLETE
        \<longrightarrow> app_queue s' = app_queue s @ [HttpDisconnect]
          \<and> (\<exists>e' s''. receive s' = Some (e', s'')
                \<and> (if received s = [] then e' = HttpRequest b False else e' = HttpDisconnect))"
    using complete_next by blast
  have 5: "chan_ok b s \<and> length (received s) = 2 \<longrightarrow> state s = COMPLETE \<and> receive s = None"
    using all_received by blast
  from 1 2 3 4 5 show ?thesis by blast
qed

text \<open>The application that awaits \<open>receive\<close>, sends the response and awaits \<open>receive\<close>
  once more: it returns, having received the request event and then the disconnect
  event.\<close>

theorem channel_order_witness:
  "received new_instance = []
   \<and> chan_ok (StrBody []) (started new_instance min_scope (StrBody []))
   \<and> run_asgi_app polite_app new_instance min_scope (StrBody [])
       = (Returned (),
          \<lparr> state = COMPLETE, app_queue = [], body = ''hello'',
            response_calls = [(''200'', [], None)], app_calls = [min_scope],
            received = [HttpRequest (StrBody []) False, HttpDisconnect] \<rparr>)
   \<and> chan_ok (StrBody []) (snd (run_asgi_app polite_app new_instance min_scope (StrBody [])))"
proof -
  have r: "received new_instance = []"
    by (simp add: new_instance_def)
  have p: "run_asgi_app polite_app new_instance min_scope (StrBody [])
       = (Returned (),
          \<lparr> state = COMPLETE, app_queue = [], body = ''hello'',
            response_calls = [(''200'', [], None)], app_calls = [min_scope],
            received = [HttpRequest (StrBody []) False, HttpDisconnect] \<rparr>)"
    by (rule run_polite)
  have "received new_instance = [] \<longrightarrow>
          chan_ok (StrBody []) (started new_instance min_scope (StrBody []))
          \<and> chan_ok (StrBody [])
               (snd (run_asgi_app polite_app new_instance min_scope (StrBody [])))"
    by (rule channel_order[where s = new_instance and b = "StrBody []" and sc = min_scope
          and asgi_application = polite_app, THEN conjunct1])
  then have c: "chan_ok (StrBody []) (started new_instance min_scope (StrBody []))
          \<and> chan_ok (StrBody [])
               (snd (run_asgi_app polite_app new_instance min_scope (StrBody [])))"
    using r by (rule mp)
  from c have c1: "chan_ok (StrBody []) (started new_instance min_scope (StrBody []))"
    by (rule conjunct1)
  from c have c2: "chan_ok (StrBody [])
      (snd (run_asgi_app polite_app new_instance min_scope (StrBody [])))"
    by (rule conjunct2)
  show ?thesis
    using r c1 p c2 by (intro conjI)
qed

text \<open>The claim as the specification words it fails: the application that awaits
  \<open>receive\<close> twice after the body is complete gets the disconnect event once, and its
  last \<open>receive\<close> suspends for ever with the state \<open>COMPLETE\<close> and the queue empty.\<close>

theorem receive_after_complete_counterexample:
  "asgi_to_wsgi greedy_app min_environ
     = (Hangs,
        \<lparr> state = COMPLETE, app_queue = [], body = ''hello'',
          response_calls = [(''200'', [], None)], app_calls = [min_scope],
          received = [HttpRequest (StrBody []) False, HttpDisconnect] \<rparr>)"
  by (simp add: call_min run_greedy)

subsection \<open>One request from the call to the returned body\<close>

lemma run_hello:
  "run_asgi_app hello_app s sc b
     = (Returned (),
        s\<lparr> state := COMPLETE, app_queue := [HttpRequest b False, HttpDisconnect],
           body := body s @ ''hello'',
           response_calls := response_calls s
              @ [(''200'', [(text_of ''x'', text_of ''y'')], None)],
           app_calls := app_calls s @ [sc] \<rparr>)"
  by (simp add: run_asgi_app_def hello_app_def send_def response_start_def response_body_def
        decode_xy str_200 del: decode_headers.simps)

text \<open>
  C1.  For an environ that passes the protocol check and from which the scope can be
  built, and the application that sends the start message (status 200, the header
  \<open>x: y\<close>) and then one body message \<open>hello\<close> with \<open>more_body\<close> false: the call
  returns the one-element sequence that holds \<open>hello\<close>, and the response callback has
  been called once, with the status \<open>200\<close>, the header pair of the texts \<open>x\<close> and \<open>y\<close>,
  and \<open>None\<close>.  The application was invoked once, with the scope.
\<close>

theorem end_to_end:
  assumes "map_of environ ''SERVER_PROTOCOL'' = Some (EStr p)"
    and "startswith p ''HTTP''"
    and "build_scope_and_body environ = Inr (sc, b)"
  shows "asgi_to_wsgi hello_app environ
     = (Returned [''hello''],
        \<lparr> state = COMPLETE, app_queue = [HttpRequest b False, HttpDisconnect],
          body = ''hello'',
          response_calls = [(''200'', [(text_of ''x'', text_of ''y'')], None)],
          app_calls = [sc], received = [] \<rparr>)"
  using assms
  by (simp add: asgi_to_wsgi_def instance_call_def getitem_def run_hello new_instance_def)

text \<open>The minimal environ: the eight CGI variables and \<open>wsgi.input\<close>.\<close>

theorem end_to_end_witness:
  "map_of min_environ ''SERVER_PROTOCOL'' = Some (EStr ''HTTP/1.1'')
   \<and> startswith ''HTTP/1.1'' ''HTTP''
   \<and> build_scope_and_body min_environ = Inr (min_scope, StrBody [])
   \<and> asgi_to_wsgi hello_app min_environ
     = (Returned [''hello''],
        \<lparr> state = COMPLETE, app_queue = [HttpRequest (StrBody []) False, HttpDisconnect],
          body = ''hello'',
          response_calls = [(''200'', [([120], [121])], None)],
          app_calls = [min_scope], received = [] \<rparr>)"
proof -
  have a: "map_of min_environ ''SERVER_PROTOCOL'' = Some (EStr ''HTTP/1.1'')"
    by (simp add: min_environ_def no_input_environ_def)
  have b: "startswith ''HTTP/1.1'' ''HTTP''"
    by (simp add: startswith_def)
  have c: "build_scope_and_body min_environ = Inr (min_scope, StrBody [])"
    by (rule build_min)
  have t: "text_of ''x'' = [120]" "text_of ''y'' = [121]"
    by (simp_all add: text_of_def)
  from end_to_end[OF a b c] a b c t show ?thesis
    by simp
qed

end
